theory Spec2Isabelle
  imports Complex_Main
begin

section \<open>JavaScript values used by both programs\<close>

text \<open>
  Strings are lists of characters. Numbers that count tokens or milliseconds are
  integers (they are integral in every document the programs read, and exact in a
  double below \<open>2 ^ 53\<close>); the dollar cost, which the runner only passes through, is a
  rational. An optional property (\<open>x?: T\<close>) is an \<open>option\<close>.

  \<open>JSON.parse\<close> and \<open>JSON.stringify\<close> are built-ins of the language, not code of the
  repository: every function below that calls one takes it as a parameter, typed by the
  cast the source applies to its result (\<open>None\<close> when \<open>JSON.parse\<close> throws).
\<close>

definition truthy_str :: "string option \<Rightarrow> bool" where
  \<comment> \<open>\<open>if (s)\<close> on an optional string: \<open>undefined\<close> and \<open>""\<close> are falsy.\<close>
  "truthy_str v = (case v of None \<Rightarrow> False | Some s \<Rightarrow> s \<noteq> [])"

definition truthy_flag :: "bool option \<Rightarrow> bool" where
  \<comment> \<open>\<open>if (b)\<close> on an optional boolean.\<close>
  "truthy_flag v = (case v of None \<Rightarrow> False | Some b \<Rightarrow> b)"

definition js_or :: "string option \<Rightarrow> string option \<Rightarrow> string option" where
  \<comment> \<open>\<open>a || b\<close> on optional strings.\<close>
  "js_or a b = (if truthy_str a then a else b)"

definition nullish_int :: "int option \<Rightarrow> int" where
  \<comment> \<open>\<open>x ?? 0\<close>.\<close>
  "nullish_int v = (case v of None \<Rightarrow> 0 | Some n \<Rightarrow> n)"

fun set_prop :: "string \<Rightarrow> 'v \<Rightarrow> (string \<times> 'v) list \<Rightarrow> (string \<times> 'v) list" where
  \<comment> \<open>\<open>obj[k] = v\<close> on an object kept as the list of its own properties in enumeration
      order: an existing property keeps its place, a new one goes last.\<close>
  "set_prop k v [] = [(k, v)]"
| "set_prop k v ((k', v') # kvs) =
     (if k' = k then (k, v) # kvs else (k', v') # set_prop k v kvs)"

datatype file_state = Missing | Unreadable | Content string

section \<open>The command-line runner (\<open>src/agents/claude-cli-runner.ts\<close>)\<close>

subsection \<open>Data\<close>

record usage_block =
  input_tokens :: "int option"
  output_tokens :: "int option"
  cache_read_input_tokens :: "int option"
  cache_creation_input_tokens :: "int option"

record model_usage =
  inputTokens :: "int option"
  outputTokens :: "int option"
  cacheReadInputTokens :: "int option"
  cacheCreationInputTokens :: "int option"

text \<open>
  \<open>ClaudeJsonResult\<close>, as far as the runner reads it. Every property is optional here,
  because the source casts whatever \<open>JSON.parse\<close> returns and tests the properties at
  run time (\<open>parsed.type === "result"\<close>, \<open>if (result.session_id)\<close>, \<open>result.usage?.\<close>).
  \<open>modelUsage\<close> lists the object's properties in the order of \<open>Object.keys\<close>. A
  document that is not an object has none of the properties; the document \<open>null\<close>, on
  which reading a property throws, is outside the type.
\<close>

record claude_json_result =
  type_field :: "string option"
  result_field :: "string option"
  session_id :: "string option"
  total_cost_usd :: "rat option"
  usage :: "usage_block option"
  modelUsage :: "(string \<times> model_usage) list option"

text \<open>
  \<open>ClaudeCliRunnerParams\<close>. \<open>abortSignal\<close> is \<open>None\<close> when the caller passes no signal
  and \<open>Some b\<close> when it passes one whose \<open>aborted\<close> flag reads \<open>b\<close> at the moment the
  promise executor runs. \<open>sessionKey\<close>, \<open>config\<close>, \<open>onPartialReply\<close> and
  \<open>onAgentEvent\<close> are never read by the module and are left out.
\<close>

record params =
  sessionId :: string
  workspaceDir :: string
  prompt :: string
  model :: "string option"
  timeoutMs :: int
  runId :: string
  abortSignal :: "bool option"
  systemPrompt :: "string option"
  appendSystemPrompt :: "string option"
  continueSession :: "bool option"
  resumeSessionId :: "string option"
  allowedTools :: "string list option"
  disallowedTools :: "string list option"
  skipPermissions :: "bool option"

record run_usage =
  usage_input :: int
  usage_output :: int
  usage_cacheRead :: int
  usage_cacheWrite :: int

record run_meta =
  durationMs :: int
  meta_sessionId :: "string option"
  meta_model :: "string option"
  costUsd :: "rat option"
  meta_usage :: "run_usage option"
  meta_aborted :: "bool option"

record payload =
  payload_text :: "string option"

record run_result =
  payloads :: "payload list option"
  meta :: run_meta

datatype run_error =
    MkdirError
  | SpawnError string
  | ExitError "int option" string
  | ParseError

datatype promise = Pending | Resolved run_result | Rejected run_error

subsection \<open>Session map and arguments\<close>

type_synonym session_map = "(string \<times> string) list"

definition loadSessionMap :: "(string \<Rightarrow> session_map option) \<Rightarrow> file_state \<Rightarrow> session_map" where
  \<comment> \<open>The argument is the state of \<open>.claude-sessions.json\<close> in the workspace;
      \<open>readFile\<close> throws on a missing or unreadable file, and the \<open>catch\<close> covers both
      it and \<open>JSON.parse\<close>.\<close>
  "loadSessionMap parse_map f =
     (case f of
        Content c \<Rightarrow> (case parse_map c of Some m \<Rightarrow> m | None \<Rightarrow> [])
      | _ \<Rightarrow> [])"

definition push_value :: "string \<Rightarrow> string option \<Rightarrow> string list \<Rightarrow> string list" where
  \<comment> \<open>\<open>if (v) args.push(flag, v)\<close>.\<close>
  "push_value flag v args =
     (case v of None \<Rightarrow> args | Some s \<Rightarrow> if s \<noteq> [] then args @ [flag, s] else args)"

definition push_list :: "string \<Rightarrow> string list option \<Rightarrow> string list \<Rightarrow> string list" where
  \<comment> \<open>\<open>if (xs?.length) args.push(flag, ...xs)\<close>.\<close>
  "push_list flag v args =
     (case v of None \<Rightarrow> args | Some xs \<Rightarrow> if xs \<noteq> [] then args @ flag # xs else args)"

definition buildClaudeArgs :: "params \<Rightarrow> string list" where
  "buildClaudeArgs p =
     (let args = [''-p'', ''--output-format'', ''json''];
          args = push_value ''--model'' (model p) args;
          args = push_value ''--system-prompt'' (systemPrompt p) args;
          args = push_value ''--append-system-prompt'' (appendSystemPrompt p) args;
          args = (if truthy_str (resumeSessionId p)
                  then args @ [''--resume'', the (resumeSessionId p)]
                  else if truthy_flag (continueSession p) then args @ [''--continue'']
                  else args);
          args = push_list ''--allowed-tools'' (allowedTools p) args;
          args = push_list ''--disallowed-tools'' (disallowedTools p) args;
          args = (if truthy_flag (skipPermissions p)
                  then args @ [''--dangerously-skip-permissions''] else args)
      in args @ [prompt p])"

subsection \<open>Reading the output of the child\<close>

definition is_js_space :: "char \<Rightarrow> bool" where
  \<comment> \<open>The code units that \<open>String.prototype.trim\<close> strips, as far as they fit a
      \<open>char\<close>: TAB, LF, VT, FF, CR, space and the no-break space.\<close>
  "is_js_space c =
     (c \<in> set [CHR 0x09, CHR 0x0A, CHR 0x0B, CHR 0x0C, CHR 0x0D, CHR 0x20, CHR 0xA0])"

definition trim :: "string \<Rightarrow> string" where
  "trim s = rev (dropWhile is_js_space (rev (dropWhile is_js_space s)))"

fun split_nl :: "string \<Rightarrow> string list" where
  \<comment> \<open>\<open>s.split("\n")\<close>: the empty string gives one empty line.\<close>
  "split_nl [] = [[]]"
| "split_nl (c # cs) =
     (case split_nl cs of
        [] \<Rightarrow> [[c]]
      | l # ls \<Rightarrow> if c = CHR 0x0A then [] # l # ls else (c # l) # ls)"

fun scan_lines ::
  "(string \<Rightarrow> claude_json_result option) \<Rightarrow> string list \<Rightarrow> claude_json_result option"
where
  \<comment> \<open>The \<open>for\<close> loop over the reversed lines: a line that does not parse is skipped by
      the inner \<open>catch\<close>, the first one whose \<open>type\<close> is \<open>"result"\<close> ends the loop.\<close>
  "scan_lines json_parse [] = None"
| "scan_lines json_parse (line # rest) =
     (case json_parse line of
        None \<Rightarrow> scan_lines json_parse rest
      | Some parsed \<Rightarrow>
          if type_field parsed = Some ''result'' then Some parsed
          else scan_lines json_parse rest)"

definition parse_output ::
  "(string \<Rightarrow> claude_json_result option) \<Rightarrow> string \<Rightarrow> claude_json_result option"
where
  \<comment> \<open>Lines 226 to 247 of the runner; \<open>None\<close> is the outer \<open>catch\<close>.\<close>
  "parse_output json_parse out =
     (case scan_lines json_parse (rev (split_nl (trim out))) of
        Some r \<Rightarrow> Some r
      | None \<Rightarrow> json_parse out)"

subsection \<open>Usage totals and the primary model\<close>

fun add_model_usage :: "model_usage list \<Rightarrow> run_usage \<Rightarrow> run_usage" where
  \<comment> \<open>The loop over \<open>Object.values(result.modelUsage)\<close>.\<close>
  "add_model_usage [] t = t"
| "add_model_usage (modelData # rest) t =
     add_model_usage rest
       \<lparr>usage_input = usage_input t + nullish_int (inputTokens modelData),
        usage_output = usage_output t + nullish_int (outputTokens modelData),
        usage_cacheRead = usage_cacheRead t + nullish_int (cacheReadInputTokens modelData),
        usage_cacheWrite =
          usage_cacheWrite t + nullish_int (cacheCreationInputTokens modelData)\<rparr>"

definition usage_totals :: "claude_json_result \<Rightarrow> run_usage" where
  "usage_totals r =
     (let t = (case usage r of
                 None \<Rightarrow>
                   \<lparr>usage_input = 0, usage_output = 0, usage_cacheRead = 0,
                    usage_cacheWrite = 0\<rparr>
               | Some u \<Rightarrow>
                   \<lparr>usage_input = nullish_int (input_tokens u),
                    usage_output = nullish_int (output_tokens u),
                    usage_cacheRead = nullish_int (cache_read_input_tokens u),
                    usage_cacheWrite = nullish_int (cache_creation_input_tokens u)\<rparr>)
      in case modelUsage r of
           None \<Rightarrow> t
         | Some mu \<Rightarrow> if length (map fst mu) > 0 then add_model_usage (map snd mu) t else t)"

definition primaryModel :: "params \<Rightarrow> claude_json_result \<Rightarrow> string" where
  "primaryModel p r =
     (let dflt = (case model p of Some m \<Rightarrow> m | None \<Rightarrow> ''unknown'')
      in case modelUsage r of
           None \<Rightarrow> dflt
         | Some mu \<Rightarrow> (case map fst mu of [] \<Rightarrow> dflt | k # _ \<Rightarrow> k))"

subsection \<open>The invocation as a state machine\<close>

text \<open>
  What the invocation depends on outside its parameters: whether \<open>fs.mkdir\<close> and
  \<open>fs.writeFile\<close> succeed, the session map file, the environment variable naming the
  binary, and the clock at the start.
\<close>

record world =
  mkdir_ok :: bool
  map_file :: file_state
  write_ok :: bool
  CLAUDE_CLI_PATH :: "string option"
  now_started :: int

text \<open>
  The variables the promise executor closes over, the promise itself, and the effects
  on the outside: the calls of \<open>spawn\<close> (binary and arguments), the number of
  \<open>SIGTERM\<close>s sent, the number of calls of \<open>fs.writeFile\<close>, and the session map
  file. A call of \<open>fs.writeFile\<close> that throws is taken to leave the file as it was.
\<close>

record proc_state =
  stdout :: string
  stderr :: string
  aborted :: bool
  abort_listener :: bool
  timer_armed :: bool
  settled :: promise
  sessionMap :: session_map
  spawned :: "(string \<times> string list) list"
  kills :: nat
  file_writes :: nat
  map_file_now :: file_state

text \<open>
  The callbacks the executor registers, as events: the abort signal firing, the timer
  firing, a chunk on either stream, the child's \<open>error\<close> event, and its \<open>close\<close> event
  with the exit code (\<open>None\<close> for \<open>null\<close>: killed by a signal) and the clock at that
  moment.
\<close>

datatype event =
    Abort
  | Timeout
  | StdoutData string
  | StderrData string
  | ProcError string
  | Close "int option" int

definition settle :: "promise \<Rightarrow> proc_state \<Rightarrow> proc_state" where
  \<comment> \<open>\<open>resolve\<close> and \<open>reject\<close> act on a pending promise only.\<close>
  "settle v s = (if settled s = Pending then s\<lparr>settled := v\<rparr> else s)"

definition aborted_result :: "int \<Rightarrow> run_result" where
  "aborted_result d =
     \<lparr>payloads = Some [\<lparr>payload_text = Some ''[Claude CLI timed out or aborted]''\<rparr>],
      meta = \<lparr>durationMs = d, meta_sessionId = None, meta_model = None, costUsd = None,
              meta_usage = None, meta_aborted = Some True\<rparr>\<rparr>"

definition success_result :: "params \<Rightarrow> int \<Rightarrow> bool \<Rightarrow> claude_json_result \<Rightarrow> run_result" where
  "success_result p d ab r =
     \<lparr>payloads = (if truthy_str (result_field r)
                  then Some [\<lparr>payload_text = result_field r\<rparr>] else None),
      meta = \<lparr>durationMs = d, meta_sessionId = session_id r,
              meta_model = Some (primaryModel p r), costUsd = total_cost_usd r,
              meta_usage = Some (usage_totals r), meta_aborted = Some ab\<rparr>\<rparr>"

definition on_close ::
  "(string \<Rightarrow> claude_json_result option) \<Rightarrow> (session_map \<Rightarrow> string) \<Rightarrow> world \<Rightarrow> params \<Rightarrow>
   int option \<Rightarrow> int \<Rightarrow> proc_state \<Rightarrow> proc_state"
where
  \<comment> \<open>The \<open>close\<close> handler. When \<open>saveSessionMap\<close> throws, the handler ends there and
      neither \<open>resolve\<close> nor \<open>reject\<close> is called.\<close>
  "on_close json_parse stringify w p code now s0 =
     (let s = s0\<lparr>timer_armed := False\<rparr>;
          d = now - now_started w
      in if aborted s then settle (Resolved (aborted_result d)) s
         else if code \<noteq> Some 0 then
           settle (Rejected (ExitError code (if stderr s \<noteq> [] then stderr s else stdout s))) s
         else
           (case parse_output json_parse (stdout s) of
              None \<Rightarrow> settle (Rejected ParseError) s
            | Some result \<Rightarrow>
                (case session_id result of
                   None \<Rightarrow> settle (Resolved (success_result p d (aborted s) result)) s
                 | Some sid \<Rightarrow>
                     if sid = [] then
                       settle (Resolved (success_result p d (aborted s) result)) s
                     else
                       (let m = set_prop (sessionId p) sid (sessionMap s);
                            s1 = s\<lparr>sessionMap := m, file_writes := Suc (file_writes s)\<rparr>
                        in if write_ok w then
                             settle (Resolved (success_result p d (aborted s1) result))
                               (s1\<lparr>map_file_now := Content (stringify m)\<rparr>)
                           else s1))))"

fun handle ::
  "(string \<Rightarrow> claude_json_result option) \<Rightarrow> (session_map \<Rightarrow> string) \<Rightarrow> world \<Rightarrow> params \<Rightarrow>
   event \<Rightarrow> proc_state \<Rightarrow> proc_state"
where
  "handle json_parse stringify w p Abort s =
     (if abort_listener s
      then s\<lparr>aborted := True, abort_listener := False, kills := Suc (kills s)\<rparr>
      else s)"
| "handle json_parse stringify w p Timeout s =
     (if timer_armed s
      then s\<lparr>aborted := True, timer_armed := False, kills := Suc (kills s)\<rparr>
      else s)"
| "handle json_parse stringify w p (StdoutData d) s = s\<lparr>stdout := stdout s @ d\<rparr>"
| "handle json_parse stringify w p (StderrData d) s = s\<lparr>stderr := stderr s @ d\<rparr>"
| "handle json_parse stringify w p (ProcError err) s =
     settle (Rejected (SpawnError err)) (s\<lparr>timer_armed := False\<rparr>)"
| "handle json_parse stringify w p (Close code now) s =
     on_close json_parse stringify w p code now s"

fun run_events ::
  "(string \<Rightarrow> claude_json_result option) \<Rightarrow> (session_map \<Rightarrow> string) \<Rightarrow> world \<Rightarrow> params \<Rightarrow>
   event list \<Rightarrow> proc_state \<Rightarrow> proc_state"
where
  "run_events json_parse stringify w p [] s = s"
| "run_events json_parse stringify w p (e # es) s =
     run_events json_parse stringify w p es (handle json_parse stringify w p e s)"

definition claudeBin :: "world \<Rightarrow> string" where
  "claudeBin w =
     (case CLAUDE_CLI_PATH w of
        None \<Rightarrow> ''/opt/homebrew/bin/claude''
      | Some b \<Rightarrow> if b \<noteq> [] then b else ''/opt/homebrew/bin/claude'')"

definition spawn_state :: "(string \<Rightarrow> session_map option) \<Rightarrow> world \<Rightarrow> params \<Rightarrow> proc_state" where
  \<comment> \<open>From the load of the session map to the end of the promise executor: one call
      of \<open>spawn\<close>, the abort listener (or \<open>onAbort\<close> at once when the signal has already
      fired), the timer.\<close>
  "spawn_state parse_map w p =
     (let m = loadSessionMap parse_map (map_file w);
          existingClaudeSession = map_of m (sessionId p);
          runParams = p\<lparr>resumeSessionId := js_or existingClaudeSession (resumeSessionId p)\<rparr>;
          args = buildClaudeArgs runParams
      in \<lparr>stdout = [], stderr = [],
          aborted = (abortSignal p = Some True),
          abort_listener = (abortSignal p = Some False),
          timer_armed = True,
          settled = Pending,
          sessionMap = m,
          spawned = [(claudeBin w, args)],
          kills = (if abortSignal p = Some True then 1 else 0),
          file_writes = 0,
          map_file_now = map_file w\<rparr>)"

definition runClaudeCliAgent ::
  "(string \<Rightarrow> claude_json_result option) \<Rightarrow> (string \<Rightarrow> session_map option) \<Rightarrow>
   (session_map \<Rightarrow> string) \<Rightarrow> world \<Rightarrow> params \<Rightarrow> event list \<Rightarrow> proc_state"
where
  \<comment> \<open>The state after the events \<open>es\<close> have been delivered in order. When \<open>fs.mkdir\<close>
      throws, the function rejects before it loads the map or spawns anything.\<close>
  "runClaudeCliAgent json_parse parse_map stringify w p es =
     (if \<not> mkdir_ok w then
        \<lparr>stdout = [], stderr = [], aborted = False, abort_listener = False,
         timer_armed = False, settled = Rejected MkdirError, sessionMap = [],
         spawned = [], kills = 0, file_writes = 0, map_file_now = map_file w\<rparr>
      else run_events json_parse stringify w p es (spawn_state parse_map w p))"

subsection \<open>Talking about runs\<close>

fun quiet :: "event \<Rightarrow> bool" where
  \<comment> \<open>An event before the child has closed or raised \<open>error\<close>.\<close>
  "quiet (ProcError err) = False"
| "quiet (Close code now) = False"
| "quiet e = True"

fun stdout_chunk :: "event \<Rightarrow> string" where
  "stdout_chunk (StdoutData d) = d"
| "stdout_chunk e = []"

definition captured_stdout :: "event list \<Rightarrow> string" where
  "captured_stdout es = concat (map stdout_chunk es)"

definition run_aborted :: "params \<Rightarrow> event list \<Rightarrow> bool" where
  \<comment> \<open>The abort signal has fired (before the executor ran, or later while the listener
      was registered) or the timer has.\<close>
  "run_aborted p es =
     (abortSignal p = Some True \<or> (abortSignal p = Some False \<and> Abort \<in> set es) \<or>
      Timeout \<in> set es)"

definition caller_strings :: "params \<Rightarrow> string list" where
  \<comment> \<open>The strings of the caller that \<open>buildClaudeArgs\<close> may copy into the arguments,
      the resume id apart.\<close>
  "caller_strings p =
     (case model p of None \<Rightarrow> [] | Some m \<Rightarrow> [m]) @
     (case systemPrompt p of None \<Rightarrow> [] | Some m \<Rightarrow> [m]) @
     (case appendSystemPrompt p of None \<Rightarrow> [] | Some m \<Rightarrow> [m]) @
     (case allowedTools p of None \<Rightarrow> [] | Some xs \<Rightarrow> xs) @
     (case disallowedTools p of None \<Rightarrow> [] | Some xs \<Rightarrow> xs) @
     [prompt p]"







section \<open>The credential sync script (\<open>scripts/sync-claude-oauth.ts\<close>)\<close>

datatype json =
    JNull
  | JBool bool
  | JNum rat
  | JStr string
  | JArr "json list"
  | JObj "(string \<times> json) list"




record token_data =
  access_token :: string
  refresh_token :: string
  expires_in :: int

text \<open>
  What \<open>fetch\<close> and the reading of its response can do: throw, answer with a status
  that is not ok (and a body), answer with a body that is not JSON, or answer with the
  token data.
\<close>

datatype http_result = FetchThrows | NotOk string | BadBody | OkJson token_data











section \<open>Sample inputs\<close>

definition quoted :: "string \<Rightarrow> string" where
  "quoted s = CHR 0x22 # s @ [CHR 0x22]"

definition sample_params :: params where
  "sample_params =
     \<lparr>sessionId = ''chat-1'', workspaceDir = ''/work'', prompt = ''hello'', model = None,
      timeoutMs = 1000, runId = ''r1'', abortSignal = Some False, systemPrompt = None,
      appendSystemPrompt = None, continueSession = Some True, resumeSessionId = None,
      allowedTools = None, disallowedTools = None, skipPermissions = None\<rparr>"

definition sample_world :: world where
  "sample_world =
     \<lparr>mkdir_ok = True, map_file = Missing, write_ok = True, CLAUDE_CLI_PATH = None,
      now_started = 1000\<rparr>"

definition sample_result :: claude_json_result where
  "sample_result =
     \<lparr>type_field = Some ''result'', result_field = Some ''hi'', session_id = Some ''abc'',
      total_cost_usd = None,
      usage = Some \<lparr>input_tokens = Some 3, output_tokens = Some 5,
                    cache_read_input_tokens = None, cache_creation_input_tokens = Some 2\<rparr>,
      modelUsage = Some [(''opus'', \<lparr>inputTokens = Some 10, outputTokens = Some 20,
                                    cacheReadInputTokens = Some 7,
                                    cacheCreationInputTokens = None\<rparr>),
                         (''haiku'', \<lparr>inputTokens = Some 1, outputTokens = None,
                                     cacheReadInputTokens = None,
                                     cacheCreationInputTokens = None\<rparr>)]\<rparr>"

definition sample_line :: string where
  \<comment> \<open>Stands for the one-line JSON text of \<open>sample_result\<close>.\<close>
  "sample_line = ''{'' @ quoted ''type'' @ '':'' @ quoted ''result'' @ '', ...}''"

definition sample_plain_line :: string where
  \<comment> \<open>Stands for the same document without its \<open>session_id\<close>.\<close>
  "sample_plain_line = ''{'' @ quoted ''type'' @ '':'' @ quoted ''result'' @ ''}''"

definition sample_json_parse :: "string \<Rightarrow> claude_json_result option" where
  \<comment> \<open>A stand-in for \<open>JSON.parse\<close> that knows two documents.\<close>
  "sample_json_parse s =
     (if s = sample_line then Some sample_result
      else if s = sample_plain_line then Some (sample_result\<lparr>session_id := None\<rparr>)
      else None)"

definition sample_map_text :: string where
  "sample_map_text =
     ''{'' @ quoted ''chat-0'' @ '':'' @ quoted ''sess-3'' @ '','' @
     quoted ''chat-1'' @ '':'' @ quoted ''sess-9'' @ ''}''"

definition sample_parse_map :: "string \<Rightarrow> session_map option" where
  "sample_parse_map s =
     (if s = sample_map_text then Some [(''chat-0'', ''sess-3''), (''chat-1'', ''sess-9'')]
      else None)"




definition sample_stringify :: "session_map \<Rightarrow> string" where
  "sample_stringify m =
     ''{'' @ concat (map (\<lambda>kv. quoted (fst kv) @ '':'' @ quoted (snd kv) @ '','') m) @ ''}''"









section \<open>Facts about the state machine\<close>

lemma settle_fields [simp]:
  "stdout (settle v s) = stdout s"
  "stderr (settle v s) = stderr s"
  "aborted (settle v s) = aborted s"
  "abort_listener (settle v s) = abort_listener s"
  "timer_armed (settle v s) = timer_armed s"
  "sessionMap (settle v s) = sessionMap s"
  "spawned (settle v s) = spawned s"
  "kills (settle v s) = kills s"
  "file_writes (settle v s) = file_writes s"
  "map_file_now (settle v s) = map_file_now s"
  by (simp_all add: settle_def)




lemma run_events_append:
  "run_events jp sf w p (es @ es') s = run_events jp sf w p es' (run_events jp sf w p es s)"
  by (induction es arbitrary: s) simp_all

text \<open>Before \<open>error\<close> or \<open>close\<close> nothing settles the promise or touches the map.\<close>

lemma quiet_settled:
  "list_all quiet es \<Longrightarrow> settled (run_events jp sf w p es s) = settled s"
proof (induction es arbitrary: s)
  case Nil
  then show ?case by simp
next
  case (Cons e es)
  then show ?case by (cases e) simp_all
qed

lemma quiet_files:
  "list_all quiet es \<Longrightarrow>
     sessionMap (run_events jp sf w p es s) = sessionMap s \<and>
     file_writes (run_events jp sf w p es s) = file_writes s \<and>
     map_file_now (run_events jp sf w p es s) = map_file_now s"
proof (induction es arbitrary: s)
  case Nil
  then show ?case by simp
next
  case (Cons e es)
  then show ?case by (cases e) simp_all
qed

lemma quiet_stdout:
  "list_all quiet es \<Longrightarrow>
     stdout (run_events jp sf w p es s) = stdout s @ captured_stdout es"
proof (induction es arbitrary: s)
  case Nil
  then show ?case by (simp add: captured_stdout_def)
next
  case (Cons e es)
  then show ?case by (cases e) (simp_all add: captured_stdout_def)
qed

lemma quiet_aborted:
  "list_all quiet es \<Longrightarrow>
     aborted (run_events jp sf w p es s) =
       (aborted s \<or> (abort_listener s \<and> Abort \<in> set es) \<or>
        (timer_armed s \<and> Timeout \<in> set es))"
proof (induction es arbitrary: s)
  case Nil
  then show ?case by simp
next
  case (Cons e es)
  then show ?case by (cases e) auto
qed

lemma spawn_state_fields [simp]:
  "settled (spawn_state mp w p) = Pending"
  "stdout (spawn_state mp w p) = []"
  "timer_armed (spawn_state mp w p) = True"
  "aborted (spawn_state mp w p) = (abortSignal p = Some True)"
  "abort_listener (spawn_state mp w p) = (abortSignal p = Some False)"
  "sessionMap (spawn_state mp w p) = loadSessionMap mp (map_file w)"
  "file_writes (spawn_state mp w p) = 0"
  "map_file_now (spawn_state mp w p) = map_file w"
  by (simp_all add: spawn_state_def Let_def)

text \<open>The state in which the \<open>close\<close> handler of a run without an earlier \<open>error\<close> starts.\<close>

lemma before_close:
  assumes "list_all quiet pre"
  shows "settled (run_events jp sf w p pre (spawn_state mp w p)) = Pending"
    and "aborted (run_events jp sf w p pre (spawn_state mp w p)) = run_aborted p pre"
    and "stdout (run_events jp sf w p pre (spawn_state mp w p)) = captured_stdout pre"
    and "sessionMap (run_events jp sf w p pre (spawn_state mp w p)) =
           loadSessionMap mp (map_file w)"
    and "file_writes (run_events jp sf w p pre (spawn_state mp w p)) = 0"
    and "map_file_now (run_events jp sf w p pre (spawn_state mp w p)) = map_file w"
  using assms
  by (simp_all add: quiet_settled quiet_aborted run_aborted_def quiet_stdout quiet_files)

lemma run_then_close:
  "mkdir_ok w \<Longrightarrow>
     runClaudeCliAgent jp mp sf w p (pre @ [Close code now]) =
       on_close jp sf w p code now (run_events jp sf w p pre (spawn_state mp w p))"
  by (simp add: runClaudeCliAgent_def run_events_append)


lemma sample_mkdir: "mkdir_ok sample_world"
  by (simp add: sample_world_def)




section \<open>Abort and timeout\<close>

text \<open>
  Claim C1, as the code has it. Take an invocation that spawns its child, in which the
  child raises no \<open>error\<close> event before it closes (\<open>pre\<close> holds the events before the
  \<open>close\<close>), and in which the abort signal fires or the timer of \<open>timeoutMs\<close> elapses
  before the \<open>close\<close>. Then the promise resolves, with \<open>meta.aborted = true\<close> and the
  single payload \<open>[Claude CLI timed out or aborted]\<close>, whatever the exit code and
  whatever the child has printed.
\<close>

theorem abort_or_timeout_resolves:
  assumes "mkdir_ok w" and "list_all quiet pre" and "run_aborted p pre"
  shows "settled (runClaudeCliAgent jp mp sf w p (pre @ [Close code now])) =
           Resolved
             \<lparr>payloads = Some [\<lparr>payload_text = Some ''[Claude CLI timed out or aborted]''\<rparr>],
              meta = \<lparr>durationMs = now - now_started w, meta_sessionId = None,
                      meta_model = None, costUsd = None, meta_usage = None,
                      meta_aborted = Some True\<rparr>\<rparr>"
proof -
  let ?s = "run_events jp sf w p pre (spawn_state mp w p)"
  have "aborted ?s" and "settled ?s = Pending"
    using assms(2,3) before_close(1,2) [of pre jp sf w p mp] by simp_all
  then have "settled (on_close jp sf w p code now ?s) =
               Resolved (aborted_result (now - now_started w))"
    by (simp add: on_close_def Let_def settle_def)
  then show ?thesis
    using assms(1) by (simp add: run_then_close aborted_result_def)
qed

theorem abort_or_timeout_resolves_witness:
  "mkdir_ok sample_world \<and> list_all quiet [StdoutData sample_line, Timeout] \<and>
   run_aborted sample_params [StdoutData sample_line, Timeout] \<and>
   settled (runClaudeCliAgent sample_json_parse sample_parse_map sample_stringify sample_world
              sample_params ([StdoutData sample_line, Timeout] @ [Close (Some 0) 2000])) =
     Resolved
       \<lparr>payloads = Some [\<lparr>payload_text = Some ''[Claude CLI timed out or aborted]''\<rparr>],
        meta = \<lparr>durationMs = 1000, meta_sessionId = None, meta_model = None, costUsd = None,
                meta_usage = None, meta_aborted = Some True\<rparr>\<rparr>"
proof -
  have b: "list_all quiet [StdoutData sample_line, Timeout]" by simp
  have c: "run_aborted sample_params [StdoutData sample_line, Timeout]"
    by (simp add: run_aborted_def)
  show ?thesis
    using sample_mkdir b c
      abort_or_timeout_resolves [OF sample_mkdir b c, where jp = sample_json_parse
        and mp = sample_parse_map and sf = sample_stringify and code = "Some 0"
        and now = 2000]
    by (simp add: sample_world_def)
qed

text \<open>
  Claim C1 as stated fails when the child raises \<open>error\<close> before it closes: the
  \<open>error\<close> handler rejects, and the later \<open>resolve\<close> of the \<open>close\<close> handler has no
  effect. Here the signal has fired before the executor runs and the binary cannot be
  started.
\<close>

theorem abort_then_error_rejects:
  "mkdir_ok sample_world \<and>
   run_aborted (sample_params\<lparr>abortSignal := Some True\<rparr>) [ProcError ''spawn ENOENT''] \<and>
   settled (runClaudeCliAgent sample_json_parse sample_parse_map sample_stringify sample_world
              (sample_params\<lparr>abortSignal := Some True\<rparr>)
              ([ProcError ''spawn ENOENT''] @ [Close (Some (- 2)) 1005])) =
     Rejected (SpawnError ''spawn ENOENT'')"
  by (simp add: sample_world_def sample_params_def run_aborted_def runClaudeCliAgent_def
      spawn_state_def on_close_def settle_def Let_def)

section \<open>One spawn\<close>




section \<open>The arguments: resume or continue\<close>







lemma caller_strings_resume [simp]:
  "caller_strings (p\<lparr>resumeSessionId := r\<rparr>) = caller_strings p"
  by (simp add: caller_strings_def)







section \<open>A missing or broken session map\<close>



section \<open>Reading the result\<close>










section \<open>Saving the session map\<close>









section \<open>Usage totals\<close>






section \<open>The sync script\<close>














end
